theory Spec2Isabelle
  imports Complex_Main "HOL-Library.AList"
begin

section \<open>JavaScript numbers\<close>

text \<open>
  Every numeric field of the program is a JavaScript \<open>number\<close>. The model keeps the three
  special values of IEEE arithmetic apart from the finite ones, because the code divides
  and takes remainders without guards. A finite value is an exact real: rounding, overflow
  of finite operands and the sign of zero are not modelled (a zero divisor counts as
  \<open>+0\<close>, which is what \<open>Math.sqrt\<close> of a sum of squares yields).
\<close>

datatype jsnum = Val real | PosInf | NegInf | NaN

fun js_neg :: "jsnum \<Rightarrow> jsnum" where
  "js_neg (Val a) = Val (- a)"
| "js_neg PosInf = NegInf"
| "js_neg NegInf = PosInf"
| "js_neg NaN = NaN"

fun js_add :: "jsnum \<Rightarrow> jsnum \<Rightarrow> jsnum" where
  "js_add (Val a) (Val b) = Val (a + b)"
| "js_add NaN _ = NaN"
| "js_add _ NaN = NaN"
| "js_add PosInf NegInf = NaN"
| "js_add NegInf PosInf = NaN"
| "js_add PosInf _ = PosInf"
| "js_add _ PosInf = PosInf"
| "js_add NegInf _ = NegInf"
| "js_add _ NegInf = NegInf"

definition js_sub :: "jsnum \<Rightarrow> jsnum \<Rightarrow> jsnum" where
  "js_sub a b = js_add a (js_neg b)"

definition signed_inf :: "bool \<Rightarrow> jsnum" where
  "signed_inf positive = (if positive then PosInf else NegInf)"

fun js_mul :: "jsnum \<Rightarrow> jsnum \<Rightarrow> jsnum" where
  "js_mul (Val a) (Val b) = Val (a * b)"
| "js_mul NaN _ = NaN"
| "js_mul _ NaN = NaN"
| "js_mul (Val a) PosInf = (if a = 0 then NaN else signed_inf (0 < a))"
| "js_mul (Val a) NegInf = (if a = 0 then NaN else signed_inf (a < 0))"
| "js_mul PosInf (Val b) = (if b = 0 then NaN else signed_inf (0 < b))"
| "js_mul NegInf (Val b) = (if b = 0 then NaN else signed_inf (b < 0))"
| "js_mul PosInf PosInf = PosInf"
| "js_mul PosInf NegInf = NegInf"
| "js_mul NegInf PosInf = NegInf"
| "js_mul NegInf NegInf = PosInf"

fun js_div :: "jsnum \<Rightarrow> jsnum \<Rightarrow> jsnum" where
  "js_div (Val a) (Val b) =
     (if b = 0 then (if a = 0 then NaN else signed_inf (0 < a)) else Val (a / b))"
| "js_div NaN _ = NaN"
| "js_div _ NaN = NaN"
| "js_div (Val a) PosInf = Val 0"
| "js_div (Val a) NegInf = Val 0"
| "js_div PosInf (Val b) = signed_inf (0 \<le> b)"
| "js_div NegInf (Val b) = signed_inf (b < 0)"
| "js_div PosInf PosInf = NaN"
| "js_div PosInf NegInf = NaN"
| "js_div NegInf PosInf = NaN"
| "js_div NegInf NegInf = NaN"

text \<open>The remainder operator \<open>%\<close>: the quotient is truncated towards zero, so the result
  takes the sign of the dividend.\<close>

definition trunc_real :: "real \<Rightarrow> int" where
  "trunc_real q = (if 0 \<le> q then \<lfloor>q\<rfloor> else \<lceil>q\<rceil>)"

fun js_rem :: "jsnum \<Rightarrow> jsnum \<Rightarrow> jsnum" where
  "js_rem (Val a) (Val b) = (if b = 0 then NaN else Val (a - b * of_int (trunc_real (a / b))))"
| "js_rem NaN _ = NaN"
| "js_rem _ NaN = NaN"
| "js_rem PosInf _ = NaN"
| "js_rem NegInf _ = NaN"
| "js_rem (Val a) PosInf = Val a"
| "js_rem (Val a) NegInf = Val a"

text \<open>Comparisons: every comparison with \<open>NaN\<close> is false.\<close>

fun js_lt :: "jsnum \<Rightarrow> jsnum \<Rightarrow> bool" where
  "js_lt (Val a) (Val b) = (a < b)"
| "js_lt NaN _ = False"
| "js_lt _ NaN = False"
| "js_lt _ NegInf = False"
| "js_lt PosInf _ = False"
| "js_lt NegInf _ = True"
| "js_lt _ PosInf = True"

fun js_le :: "jsnum \<Rightarrow> jsnum \<Rightarrow> bool" where
  "js_le (Val a) (Val b) = (a \<le> b)"
| "js_le NaN _ = False"
| "js_le _ NaN = False"
| "js_le NegInf _ = True"
| "js_le _ PosInf = True"
| "js_le _ NegInf = False"
| "js_le PosInf _ = False"

definition js_ge :: "jsnum \<Rightarrow> jsnum \<Rightarrow> bool" where
  "js_ge a b = js_le b a"

text \<open>\<open>Math.abs\<close>, \<open>Math.sqrt\<close>, \<open>Math.max\<close>, \<open>Math.min\<close>, \<open>Math.cos\<close>, \<open>Math.sin\<close>.\<close>

fun Math_abs :: "jsnum \<Rightarrow> jsnum" where
  "Math_abs (Val a) = Val \<bar>a\<bar>"
| "Math_abs PosInf = PosInf"
| "Math_abs NegInf = PosInf"
| "Math_abs NaN = NaN"

fun Math_sqrt :: "jsnum \<Rightarrow> jsnum" where
  "Math_sqrt (Val a) = (if a < 0 then NaN else Val (sqrt a))"
| "Math_sqrt PosInf = PosInf"
| "Math_sqrt NegInf = NaN"
| "Math_sqrt NaN = NaN"

definition Math_max :: "jsnum \<Rightarrow> jsnum \<Rightarrow> jsnum" where
  "Math_max a b = (if a = NaN \<or> b = NaN then NaN else if js_lt a b then b else a)"

definition Math_min :: "jsnum \<Rightarrow> jsnum \<Rightarrow> jsnum" where
  "Math_min a b = (if a = NaN \<or> b = NaN then NaN else if js_lt b a then b else a)"

fun Math_cos :: "jsnum \<Rightarrow> jsnum" where
  "Math_cos (Val a) = Val (cos a)"
| "Math_cos _ = NaN"

fun Math_sin :: "jsnum \<Rightarrow> jsnum" where
  "Math_sin (Val a) = Val (sin a)"
| "Math_sin _ = NaN"

definition Math_PI :: jsnum where
  "Math_PI = Val pi"

section \<open>Data model (\<open>App.tsx\<close>, interfaces \<open>Sprite\<close>, \<open>Animation\<close>, \<open>ActionBlock\<close>)\<close>

text \<open>
  Field names carry the name of their interface where the three interfaces share a name
  or the name is taken in HOL (\<open>id\<close>, \<open>type\<close>, \<open>x\<close>, \<open>y\<close>, \<open>size\<close>, \<open>value\<close>, ...).
  An optional field \<open>f?: number\<close> is an \<open>option\<close>.
\<close>

datatype SpriteType = Cat | Dog | Ball | Human

datatype AnimationType = Move | Turn | Goto | Say | Think | MoveX | MoveY | Size | Random

record Animation =
  animation_type :: AnimationType
  animation_value :: jsnum
  animation_duration :: "jsnum option"
  animation_x :: "jsnum option"
  animation_y :: "jsnum option"
  animation_repeat :: "jsnum option"

record Sprite =
  sprite_id :: string
  sprite_type :: SpriteType
  sprite_x :: jsnum
  sprite_y :: jsnum
  direction :: jsnum
  saying :: string
  thinking :: string
  animation :: "Animation list"
  sprite_size :: jsnum
  velocityX :: jsnum
  velocityY :: jsnum
  isAnimating :: bool

record ActionBlock =
  block_id :: string
  block_type :: AnimationType
  block_value :: jsnum
  block_duration :: "jsnum option"
  block_x :: "jsnum option"
  block_y :: "jsnum option"
  block_repeat :: "jsnum option"
  block_label :: string

text \<open>
  The action-queue store \<open>{ [spriteId: string]: ActionBlock[] }\<close> is an object whose keys
  are enumerated in insertion order by \<open>Object.entries\<close>; it is an association list.
  \<open>{...prev, [k]: v}\<close> is \<open>AList.update k v prev\<close>: an existing key keeps its place, a
  new one goes last.
\<close>

type_synonym ActionBlocks = "(string \<times> ActionBlock list) list"

text \<open>\<open>actionBlocks[id] || []\<close>: a missing key reads as the empty queue.\<close>

definition queueOf :: "ActionBlocks \<Rightarrow> string \<Rightarrow> ActionBlock list" where
  "queueOf ab k = (case map_of ab k of None \<Rightarrow> [] | Some q \<Rightarrow> q)"

section \<open>Scheduled work\<close>

text \<open>
  Each \<open>setTimeout\<close> call of the program is one of three closures. A pending timer is its
  due time in milliseconds together with the closure; the list of pending timers is kept
  in the order of the \<open>setTimeout\<close> calls.
\<close>

datatype Task =
    FireAction string ActionBlock bool
  | StopSprite string
  | ClearSaying string string

type_synonym Timer = "nat \<times> Task"

section \<open>Collision resolver (\<open>checkCollision\<close>, \<open>handleCollisions\<close>)\<close>

definition checkCollision :: "Sprite \<Rightarrow> Sprite \<Rightarrow> bool" where
  "checkCollision sprite1 sprite2 =
     (let size1 = js_mul (Val 48) (sprite_size sprite1);
          size2 = js_mul (Val 48) (sprite_size sprite2)
      in js_lt (Math_abs (js_sub (sprite_x sprite1) (sprite_x sprite2)))
               (js_div (js_add size1 size2) (Val 2)) \<and>
         js_lt (Math_abs (js_sub (sprite_y sprite1) (sprite_y sprite2)))
               (js_div (js_add size1 size2) (Val 2)))"

text \<open>
  The state the resolver works on: the array it mutates in place, the action-queue state it
  updates through \<open>setActionBlocks\<close>, and the timers it registers.
\<close>

record Resolver =
  r_sprites :: "Sprite list"
  r_actionBlocks :: ActionBlocks
  r_timers :: "Timer list"

text \<open>
  The body of the \<open>if (checkCollision(...))\<close> for the pair \<open>i < j\<close>. \<open>now\<close> is the time of
  the call and \<open>ab\<close> the \<open>actionBlocks\<close> value captured by the closure, which the pass
  reads while it writes the state through the functional update.
\<close>

definition separate :: "Sprite \<Rightarrow> Sprite \<Rightarrow> Sprite \<times> Sprite" where
  "separate si sj =
     (let dx = js_sub (sprite_x sj) (sprite_x si);
          dy = js_sub (sprite_y sj) (sprite_y si);
          distance = Math_sqrt (js_add (js_mul dx dx) (js_mul dy dy));
          minDistance = js_div (js_add (js_mul (Val 48) (sprite_size si))
                                       (js_mul (Val 48) (sprite_size sj))) (Val 2)
      in if js_lt distance minDistance then
           (let scale = js_div (js_sub minDistance distance) distance
            in (si\<lparr>sprite_x := js_sub (sprite_x si) (js_div (js_mul dx scale) (Val 2)),
                    sprite_y := js_sub (sprite_y si) (js_div (js_mul dy scale) (Val 2))\<rparr>,
                sj\<lparr>sprite_x := js_add (sprite_x sj) (js_div (js_mul dx scale) (Val 2)),
                    sprite_y := js_add (sprite_y sj) (js_div (js_mul dy scale) (Val 2))\<rparr>))
         else (si, sj))"

definition resolvePair :: "nat \<Rightarrow> ActionBlocks \<Rightarrow> nat \<Rightarrow> nat \<Rightarrow> Resolver \<Rightarrow> Resolver" where
  "resolvePair now ab i j r =
     (let si = r_sprites r ! i;
          sj = r_sprites r ! j;
          tempVelocityX = velocityX si;
          tempVelocityY = velocityY si;
          si1 = si\<lparr>velocityX := velocityX sj, velocityY := velocityY sj\<rparr>;
          sj1 = sj\<lparr>velocityX := tempVelocityX, velocityY := tempVelocityY\<rparr>;
          (si2, sj2) = separate si1 sj1;
          si3 = si2\<lparr>saying := ''Swapping!''\<rparr>;
          sj3 = sj2\<lparr>saying := ''Bouncing!''\<rparr>;
          sprite1Actions = queueOf ab (sprite_id si3);
          sprite2Actions = queueOf ab (sprite_id sj3)
      in r\<lparr>r_sprites := (r_sprites r)[i := si3, j := sj3],
            r_timers := r_timers r @ [(now + 1000, ClearSaying (sprite_id si3) (sprite_id sj3))],
            r_actionBlocks :=
              AList.update (sprite_id sj3) sprite1Actions
                (AList.update (sprite_id si3) sprite2Actions (r_actionBlocks r))\<rparr>)"

lemma length_resolvePair [simp]:
  "length (r_sprites (resolvePair now ab i j r)) = length (r_sprites r)"
  by (simp add: resolvePair_def Let_def split: prod.splits)

text \<open>The inner loop \<open>for (let j = i + 1; j < sprites.length; j++)\<close>, entered at \<open>j\<close>.\<close>

function innerLoop :: "nat \<Rightarrow> ActionBlocks \<Rightarrow> nat \<Rightarrow> nat \<Rightarrow> Resolver \<Rightarrow> Resolver" where
  "innerLoop now ab i j r =
     (if j < length (r_sprites r) then
        innerLoop now ab i (j + 1)
          (if checkCollision (r_sprites r ! i) (r_sprites r ! j)
           then resolvePair now ab i j r else r)
      else r)"
  by pat_completeness auto
termination
  by (relation "measure (\<lambda>(now, ab, i, j, r). length (r_sprites r) - j)") auto

declare innerLoop.simps [simp del]

lemma length_innerLoop [simp]:
  "length (r_sprites (innerLoop now ab i j r)) = length (r_sprites r)"
  by (induction now ab i j r rule: innerLoop.induct) (subst innerLoop.simps, simp)

text \<open>The outer loop \<open>for (let i = 0; i < sprites.length; i++)\<close>, entered at \<open>i\<close>.\<close>

function outerLoop :: "nat \<Rightarrow> ActionBlocks \<Rightarrow> nat \<Rightarrow> Resolver \<Rightarrow> Resolver" where
  "outerLoop now ab i r =
     (if i < length (r_sprites r) then outerLoop now ab (i + 1) (innerLoop now ab i (i + 1) r)
      else r)"
  by pat_completeness auto
termination
  by (relation "measure (\<lambda>(now, ab, i, r). length (r_sprites r) - i)") auto

declare outerLoop.simps [simp del]

definition handleCollisions :: "nat \<Rightarrow> ActionBlocks \<Rightarrow> Resolver \<Rightarrow> Resolver" where
  "handleCollisions now ab r = outerLoop now ab 0 r"

section \<open>Continuous motion stepper (the \<open>setSprites\<close> updater of \<open>animate\<close>)\<close>

text \<open>
  \<open>deltaTime\<close> is \<open>(currentTime - lastTime) / 1000\<close>; \<open>stageWidth\<close> and \<open>stageHeight\<close> are
  what \<open>stageRef.current?.clientWidth ?? 600\<close> and its height counterpart read at this tick.
\<close>

definition stepSprite :: "jsnum \<Rightarrow> jsnum \<Rightarrow> jsnum \<Rightarrow> Sprite \<Rightarrow> Sprite" where
  "stepSprite deltaTime stageWidth stageHeight sprite =
     (if \<not> isAnimating sprite then sprite
      else
        (let newX = js_add (sprite_x sprite) (js_mul (velocityX sprite) deltaTime);
             newY = js_add (sprite_y sprite) (js_mul (velocityY sprite) deltaTime);
             newVelocityX = (if js_le newX (Val 0) \<or> js_ge newX stageWidth
                             then js_neg (velocityX sprite) else velocityX sprite);
             newVelocityY = (if js_le newY (Val 0) \<or> js_ge newY stageHeight
                             then js_neg (velocityY sprite) else velocityY sprite)
         in sprite\<lparr>sprite_x := Math_max (Val 0) (Math_min newX stageWidth),
                   sprite_y := Math_max (Val 0) (Math_min newY stageHeight),
                   velocityX := newVelocityX,
                   velocityY := newVelocityY\<rparr>))"

definition stepper :: "jsnum \<Rightarrow> jsnum \<Rightarrow> jsnum \<Rightarrow> Sprite list \<Rightarrow> Sprite list" where
  "stepper deltaTime stageWidth stageHeight prevSprites =
     map (stepSprite deltaTime stageWidth stageHeight) prevSprites"

text \<open>One tick: the stepper's output goes through the collision pass in the same update.\<close>

definition animate ::
  "jsnum \<Rightarrow> jsnum \<Rightarrow> jsnum \<Rightarrow> nat \<Rightarrow> ActionBlocks \<Rightarrow> Resolver \<Rightarrow> Resolver" where
  "animate deltaTime stageWidth stageHeight now ab r =
     handleCollisions now ab
       (r\<lparr>r_sprites := stepper deltaTime stageWidth stageHeight (r_sprites r)\<rparr>)"

section \<open>Action sequencer (the second \<open>useEffect\<close>)\<close>

text \<open>
  The effect of one queued action on the sprite it names. \<open>random\<close> is the sequence of
  values \<open>Math.random()\<close> returns and \<open>n\<close> the number of calls made so far; the result
  carries the new count. The literal \<open>0.1\<close> is the real \<open>1/10\<close>. The \<open>switch\<close> has no case
  for \<open>goto\<close> and \<open>think\<close>.
\<close>

definition applyAction :: "(nat \<Rightarrow> jsnum) \<Rightarrow> nat \<Rightarrow> ActionBlock \<Rightarrow> Sprite \<Rightarrow> Sprite \<times> nat" where
  "applyAction random n action sprite =
     (let radians = js_div (js_mul (js_sub (direction sprite) (Val 90)) Math_PI) (Val 180);
          newVelocityX = (case block_type action of
               MoveX \<Rightarrow> block_value action
             | Move \<Rightarrow> js_mul (Math_cos radians) (block_value action)
             | _ \<Rightarrow> velocityX sprite);
          newVelocityY = (case block_type action of
               MoveY \<Rightarrow> block_value action
             | Move \<Rightarrow> js_mul (Math_sin radians) (block_value action)
             | _ \<Rightarrow> velocityY sprite);
          newDirection = (case block_type action of
               Turn \<Rightarrow> js_rem (js_add (direction sprite) (block_value action)) (Val 360)
             | _ \<Rightarrow> direction sprite);
          newSize = (case block_type action of
               Size \<Rightarrow> Math_max (Val (1 / 10)) (js_add (sprite_size sprite) (block_value action))
             | _ \<Rightarrow> sprite_size sprite);
          newSaying = (case block_type action of
               Say \<Rightarrow> ''Hello!''
             | _ \<Rightarrow> saying sprite);
          newX = (case block_type action of
               Random \<Rightarrow> js_add (js_mul (random n) (Val 400)) (Val 100)
             | _ \<Rightarrow> sprite_x sprite);
          newY = (case block_type action of
               Random \<Rightarrow> js_add (js_mul (random (n + 1)) (Val 400)) (Val 100)
             | _ \<Rightarrow> sprite_y sprite)
      in (sprite\<lparr>sprite_x := newX, sprite_y := newY, sprite_size := newSize,
                 direction := newDirection, saying := newSaying,
                 velocityX := newVelocityX, velocityY := newVelocityY,
                 isAnimating := True\<rparr>,
          if block_type action = Random then n + 2 else n))"

text \<open>\<open>prev.map(sprite => sprite.id === spriteId ? ... : sprite)\<close> of an action timer.\<close>

fun fireAction ::
  "(nat \<Rightarrow> jsnum) \<Rightarrow> string \<Rightarrow> ActionBlock \<Rightarrow> Sprite list \<Rightarrow> nat \<Rightarrow> Sprite list \<times> nat" where
  "fireAction random spriteId action [] n = ([], n)"
| "fireAction random spriteId action (sprite # rest) n =
     (if sprite_id sprite = spriteId then
        (let (sprite', n') = applyAction random n action sprite;
             (rest', n'') = fireAction random spriteId action rest n'
         in (sprite' # rest', n''))
      else
        (let (rest', n') = fireAction random spriteId action rest n
         in (sprite # rest', n')))"

text \<open>The timers one run of the effect registers: action \<open>index\<close> of a queue is due
  \<open>index * 1000\<close> ms after \<open>now\<close>.\<close>

definition scheduleActions :: "nat \<Rightarrow> string \<Rightarrow> ActionBlock list \<Rightarrow> Timer list" where
  "scheduleActions now spriteId actions =
     map (\<lambda>index. (now + index * 1000,
                    FireAction spriteId (actions ! index) (index = length actions - 1)))
         [0..<length actions]"

definition sequencer :: "nat \<Rightarrow> ActionBlocks \<Rightarrow> Timer list" where
  "sequencer now ab = concat (map (\<lambda>(spriteId, actions). scheduleActions now spriteId actions) ab)"

section \<open>Application state and playback controller\<close>

text \<open>
  The React state of \<open>App\<close> (\<open>sprites\<close>, \<open>selectedSprite\<close>, \<open>isPlaying\<close>, \<open>actionBlocks\<close>)
  together with what the browser holds for it: whether the frame callback named by
  \<open>animationFrameRef.current\<close> is pending, the pending timers, the clock in milliseconds
  and the number of \<open>Math.random()\<close> calls made. Each state updater runs once, in the
  order of the calls.
\<close>

record App =
  sprites :: "Sprite list"
  selectedSprite :: "string option"
  isPlaying :: bool
  actionBlocks :: ActionBlocks
  pendingFrame :: bool
  pendingTimers :: "Timer list"
  clock :: nat
  randomCalls :: nat

text \<open>
  The two effects depend on \<open>[isPlaying, actionBlocks]\<close>. \<open>effects\<close> is their bodies;
  \<open>cleanup\<close> is the function the frame effect returned when it last ran, which exists
  only if it ran while playing. The sequencer effect returns no cleanup.
\<close>

definition effects :: "App \<Rightarrow> App" where
  "effects a =
     (if isPlaying a
      then a\<lparr>pendingFrame := True,
             pendingTimers := pendingTimers a @ sequencer (clock a) (actionBlocks a)\<rparr>
      else a)"

definition cleanup :: "bool \<Rightarrow> App \<Rightarrow> App" where
  "cleanup wasPlaying a = (if wasPlaying then a\<lparr>pendingFrame := False\<rparr> else a)"

text \<open>The Play/Stop button: \<open>setIsPlaying(!isPlaying)\<close>, then the effects re-run.\<close>

definition togglePlay :: "App \<Rightarrow> App" where
  "togglePlay a = effects (cleanup (isPlaying a) (a\<lparr>isPlaying := \<not> isPlaying a\<rparr>))"

definition resetAll :: "App \<Rightarrow> App" where
  "resetAll a =
     effects (cleanup (isPlaying a)
       (a\<lparr>sprites := [], selectedSprite := None, isPlaying := False, actionBlocks := [],
          pendingFrame := False\<rparr>))"

definition deleteSprite :: "string \<Rightarrow> App \<Rightarrow> App" where
  "deleteSprite ident a =
     a\<lparr>sprites := filter (\<lambda>sprite. sprite_id sprite \<noteq> ident) (sprites a),
       selectedSprite := (if selectedSprite a = Some ident then None else selectedSprite a)\<rparr>"

text \<open>What a timer does when it fires.\<close>

fun runTask :: "(nat \<Rightarrow> jsnum) \<Rightarrow> Task \<Rightarrow> App \<Rightarrow> App" where
  "runTask random (FireAction spriteId action isLast) a =
     (let (ss, n) = fireAction random spriteId action (sprites a) (randomCalls a);
          a' = a\<lparr>sprites := ss, randomCalls := n\<rparr>
      in if isLast
         then a'\<lparr>pendingTimers := pendingTimers a' @ [(clock a' + 1000, StopSprite spriteId)]\<rparr>
         else a')"
| "runTask random (StopSprite spriteId) a =
     a\<lparr>sprites := map (\<lambda>sprite. if sprite_id sprite = spriteId
                                 then sprite\<lparr>isAnimating := False, velocityX := Val 0,
                                             velocityY := Val 0\<rparr>
                                 else sprite) (sprites a)\<rparr>"
| "runTask random (ClearSaying id1 id2) a =
     a\<lparr>sprites := map (\<lambda>sprite. if sprite_id sprite = id1 \<or> sprite_id sprite = id2
                                 then sprite\<lparr>saying := []\<rparr> else sprite) (sprites a)\<rparr>"

text \<open>One frame callback. A cancelled callback never runs. A collision calls
  \<open>setActionBlocks\<close> with a fresh object, so the effects re-run after the update.\<close>

definition frame :: "jsnum \<Rightarrow> jsnum \<Rightarrow> jsnum \<Rightarrow> App \<Rightarrow> App" where
  "frame deltaTime stageWidth stageHeight a =
     (if \<not> pendingFrame a then a
      else
        (let r = animate deltaTime stageWidth stageHeight (clock a) (actionBlocks a)
                   \<lparr>r_sprites = sprites a, r_actionBlocks = actionBlocks a,
                    r_timers = pendingTimers a\<rparr>;
             a' = a\<lparr>sprites := r_sprites r, actionBlocks := r_actionBlocks r,
                    pendingTimers := r_timers r, pendingFrame := True\<rparr>
         in if length (r_timers r) \<noteq> length (pendingTimers a)
            then effects (cleanup (isPlaying a) a') else a'))"

text \<open>
  The timer queue of the browser: the pending timer with the least due time fires first,
  the one registered first among equals. A timer fires at its due time.
\<close>

fun earliest :: "Timer list \<Rightarrow> Timer option" where
  "earliest [] = None"
| "earliest (tm # ts) =
     (case earliest ts of
        None \<Rightarrow> Some tm
      | Some tm' \<Rightarrow> if fst tm \<le> fst tm' then Some tm else Some tm')"

fun weight :: "Timer \<Rightarrow> nat" where
  "weight (_, FireAction _ _ _) = 2"
| "weight (_, _) = 1"

lemma earliest_in_set: "earliest ts = Some tm \<Longrightarrow> tm \<in> set ts"
  by (induction ts arbitrary: tm) (auto split: option.splits if_splits)

lemma weight_pos: "0 < weight tm"
  by (cases tm rule: weight.cases) simp_all

lemma weight_runTask:
  "sum_list (map weight (pendingTimers (runTask random task (a\<lparr>clock := c, pendingTimers := ts\<rparr>))))
     < sum_list (map weight ts) + weight (d, task)"
  by (cases task) (auto simp: Let_def split: prod.splits)

text \<open>Let the clock reach \<open>t\<close>, firing every timer that comes due on the way.\<close>

function runUntil :: "(nat \<Rightarrow> jsnum) \<Rightarrow> nat \<Rightarrow> App \<Rightarrow> App" where
  "runUntil random t a =
     (case earliest (pendingTimers a) of
        None \<Rightarrow> a\<lparr>clock := max (clock a) t\<rparr>
      | Some (due, task) \<Rightarrow>
          if due \<le> t
          then runUntil random t
                 (runTask random task
                    (a\<lparr>clock := max (clock a) due,
                       pendingTimers := remove1 (due, task) (pendingTimers a)\<rparr>))
          else a\<lparr>clock := max (clock a) t\<rparr>)"
  by pat_completeness auto
termination
proof (relation "measure (\<lambda>(random, t, a). sum_list (map weight (pendingTimers a)))")
  show "wf (measure (\<lambda>(random, t, a). sum_list (map weight (pendingTimers a))))"
    by simp
next
  fix random t and a :: App and x2 due task
  assume e: "earliest (pendingTimers a) = Some x2" and x: "(due, task) = x2"
  have m: "(due, task) \<in> set (pendingTimers a)"
    using e x earliest_in_set by simp
  have "sum_list (map weight (remove1 (due, task) (pendingTimers a))) + weight (due, task)
          = sum_list (map weight (pendingTimers a))"
    using sum_list_map_remove1 [OF m, of weight] by simp
  then show "((random, t, runTask random task
                 (a\<lparr>clock := max (clock a) due,
                    pendingTimers := remove1 (due, task) (pendingTimers a)\<rparr>)),
              (random, t, a))
             \<in> measure (\<lambda>(random, t, a). sum_list (map weight (pendingTimers a)))"
    using weight_runTask [where random = random and task = task and a = a
                            and c = "max (clock a) due"
                            and ts = "remove1 (due, task) (pendingTimers a)" and d = due]
    by simp
qed

declare runUntil.simps [simp del]

section \<open>Authoring: \<open>addSprite\<close>, \<open>handleActionDrop\<close>\<close>

text \<open>
  \<open>addSprite\<close> builds the sprite below; \<open>ident\<close> is the string \<open>sprite-${Date.now()}\<close> and
  \<open>r1\<close>, \<open>r2\<close> are the two values of \<open>Math.random()\<close>.
\<close>

definition newSprite :: "string \<Rightarrow> SpriteType \<Rightarrow> jsnum \<Rightarrow> jsnum \<Rightarrow> Sprite" where
  "newSprite ident ty r1 r2 =
     \<lparr>sprite_id = ident, sprite_type = ty,
      sprite_x = js_add (js_mul r1 (Val 400)) (Val 100),
      sprite_y = js_add (js_mul r2 (Val 400)) (Val 100),
      direction = Val 0, saying = [], thinking = [], animation = [],
      sprite_size = Val 1, velocityX = Val 0, velocityY = Val 0, isAnimating = False\<rparr>"

definition addSprite :: "(nat \<Rightarrow> jsnum) \<Rightarrow> string \<Rightarrow> SpriteType \<Rightarrow> App \<Rightarrow> App" where
  "addSprite random ident ty a =
     a\<lparr>sprites := sprites a @
                     [newSprite ident ty (random (randomCalls a)) (random (randomCalls a + 1))],
       selectedSprite := Some ident,
       randomCalls := randomCalls a + 2\<rparr>"

text \<open>
  The block \<open>handleActionDrop\<close> builds from a payload of the palette, which carries a type,
  a value, a label and, for \<open>say\<close> only, a duration; \<open>ident\<close> is \<open>action-${Date.now()}\<close>.
\<close>

definition newAction ::
  "string \<Rightarrow> AnimationType \<Rightarrow> jsnum \<Rightarrow> jsnum option \<Rightarrow> string \<Rightarrow> ActionBlock" where
  "newAction ident ty v dur lbl =
     \<lparr>block_id = ident, block_type = ty, block_value = v, block_duration = dur,
      block_x = None, block_y = None, block_repeat = None, block_label = lbl\<rparr>"

definition handleActionDrop :: "string \<Rightarrow> ActionBlock \<Rightarrow> App \<Rightarrow> App" where
  "handleActionDrop spriteId action a =
     effects (cleanup (isPlaying a)
       (a\<lparr>actionBlocks :=
            AList.update spriteId (queueOf (actionBlocks a) spriteId @ [action])
              (actionBlocks a)\<rparr>))"

definition initialApp :: App where
  "initialApp =
     \<lparr>sprites = [], selectedSprite = None, isPlaying = False, actionBlocks = [],
      pendingFrame = False, pendingTimers = [], clock = 0, randomCalls = 0\<rparr>"

section \<open>Notions used to state the properties\<close>

text \<open>The tentative coordinates \<open>newX\<close>, \<open>newY\<close> the stepper computes for a sprite.\<close>

definition newX :: "jsnum \<Rightarrow> Sprite \<Rightarrow> jsnum" where
  "newX deltaTime sprite = js_add (sprite_x sprite) (js_mul (velocityX sprite) deltaTime)"

definition newY :: "jsnum \<Rightarrow> Sprite \<Rightarrow> jsnum" where
  "newY deltaTime sprite = js_add (sprite_y sprite) (js_mul (velocityY sprite) deltaTime)"

text \<open>The successive firings of a list of actions on one sprite, nothing else updating
  the sprite in between.\<close>

fun applyActions ::
  "(nat \<Rightarrow> jsnum) \<Rightarrow> nat \<Rightarrow> ActionBlock list \<Rightarrow> Sprite \<Rightarrow> Sprite \<times> nat" where
  "applyActions random n [] sprite = (sprite, n)"
| "applyActions random n (action # rest) sprite =
     (let (sprite', n') = applyAction random n action sprite
      in applyActions random n' rest sprite')"

text \<open>A sprite as \<open>addSprite\<close> makes it, moved to a given point of the stage (what
  \<open>handleDrop\<close> does with the drop coordinates).\<close>

definition spriteAt :: "string \<Rightarrow> real \<Rightarrow> real \<Rightarrow> Sprite" where
  "spriteAt ident px py =
     (newSprite ident Cat (Val 0) (Val 0))\<lparr>sprite_x := Val px, sprite_y := Val py\<rparr>"



text \<open>The fields of a sprite the collision pass has no assignment to.\<close>

definition keptFields ::
  "Sprite \<Rightarrow> string \<times> SpriteType \<times> jsnum \<times> jsnum \<times> bool \<times> string \<times> Animation list" where
  "keptFields s =
     (sprite_id s, sprite_type s, direction s, sprite_size s, isAnimating s, thinking s,
      animation s)"

text \<open>Sample data: a random source that always returns one half, a stage with one cat
  on it, and blocks of the palette.\<close>

definition half :: "nat \<Rightarrow> jsnum" where
  "half n = Val (1 / 2)"

definition oneCat :: App where
  "oneCat = addSprite half ''sprite-1'' Cat initialApp"

definition turnBlock :: "string \<Rightarrow> real \<Rightarrow> ActionBlock" where
  "turnBlock ident v = newAction ident Turn (Val v) None ''Turn''"

definition decreaseSize :: ActionBlock where
  "decreaseSize = newAction ''action-2'' Size (Val (- (1 / 10))) None ''Decrease Size''"

text \<open>The cat with two queued turns of 90 degrees.\<close>

definition twoTurns :: App where
  "twoTurns =
     handleActionDrop ''sprite-1'' (turnBlock ''action-2'' 90)
       (handleActionDrop ''sprite-1'' (turnBlock ''action-1'' 90) oneCat)"

text \<open>Two sprites moving towards each other, each with one queued block, and the queue
  store that holds the two queues.\<close>

definition spriteA :: "real \<Rightarrow> real \<Rightarrow> Sprite" where
  "spriteA px py = (spriteAt ''sprite-1'' px py)\<lparr>velocityX := Val 50, velocityY := Val 0\<rparr>"

definition spriteB :: "real \<Rightarrow> real \<Rightarrow> Sprite" where
  "spriteB px py = (spriteAt ''sprite-2'' px py)\<lparr>velocityX := Val (- 50), velocityY := Val 0\<rparr>"

definition a1 :: ActionBlock where
  "a1 = newAction ''action-a1'' MoveX (Val 100) None ''Move Right''"

definition b1 :: ActionBlock where
  "b1 = newAction ''action-b1'' MoveY (Val 50) None ''Move Down''"

definition queuesAB :: ActionBlocks where
  "queuesAB = [(''sprite-1'', [a1]), (''sprite-2'', [b1])]"

text \<open>The centre-to-centre distance of two sprites and their minimum separation, as the
  collision pass computes them.\<close>

definition centreDistance :: "Sprite \<Rightarrow> Sprite \<Rightarrow> jsnum" where
  "centreDistance a b =
     (let dx = js_sub (sprite_x b) (sprite_x a);
          dy = js_sub (sprite_y b) (sprite_y a)
      in Math_sqrt (js_add (js_mul dx dx) (js_mul dy dy)))"

definition minDistance :: "Sprite \<Rightarrow> Sprite \<Rightarrow> jsnum" where
  "minDistance a b =
     js_div (js_add (js_mul (Val 48) (sprite_size a)) (js_mul (Val 48) (sprite_size b))) (Val 2)"

text \<open>Two cats dropped 16 apart on the stage, and the state after the first frame, which
  runs 16 ms after Play and finds them overlapping.\<close>

definition twoCats :: App where
  "twoCats = initialApp\<lparr>sprites := [spriteAt ''sprite-1'' 100 100, spriteAt ''sprite-2'' 116 100]\<rparr>"

definition bumped :: App where
  "bumped =
     frame (Val (16 / 1000)) (Val 600) (Val 600) (runUntil half 16 (togglePlay twoCats))"

section \<open>Lemmas on the loops of the collision pass\<close>

lemma innerLoop_done: "length (r_sprites r) \<le> j \<Longrightarrow> innerLoop now ab i j r = r"
  by (subst innerLoop.simps) simp

lemma innerLoop_step:
  "j < length (r_sprites r) \<Longrightarrow>
   innerLoop now ab i j r =
     innerLoop now ab i (Suc j)
       (if checkCollision (r_sprites r ! i) (r_sprites r ! j)
        then resolvePair now ab i j r else r)"
  by (subst innerLoop.simps) simp

lemma outerLoop_done: "length (r_sprites r) \<le> i \<Longrightarrow> outerLoop now ab i r = r"
  by (subst outerLoop.simps) simp

lemma outerLoop_step:
  "i < length (r_sprites r) \<Longrightarrow>
   outerLoop now ab i r = outerLoop now ab (Suc i) (innerLoop now ab i (Suc i) r)"
  by (subst outerLoop.simps) simp

text \<open>On a list of two sprites the pass is the test of the one pair.\<close>

lemma handleCollisions_pair:
  assumes "r_sprites r = [a, b]"
  shows "handleCollisions now ab r =
           (if checkCollision a b then resolvePair now ab 0 1 r else r)"
  using assms
  by (simp add: handleCollisions_def outerLoop_step innerLoop_step innerLoop_done
      outerLoop_done)

lemma length_outerLoop [simp]:
  "length (r_sprites (outerLoop now ab i r)) = length (r_sprites r)"
  by (induction now ab i r rule: outerLoop.induct) (subst outerLoop.simps, simp)

section \<open>The collision pass leaves identity, kind, heading, scale and the animating flag alone\<close>

lemma map_update_same: "f y = f (xs ! i) \<Longrightarrow> map f (xs[i := y]) = map f xs"
  by (cases "i < length xs") (simp_all add: map_update list_update_same_conv list_update_beyond)

lemma keptFields_separate:
  "separate si sj = (a, b) \<Longrightarrow> keptFields a = keptFields si \<and> keptFields b = keptFields sj"
  by (auto simp: separate_def Let_def keptFields_def split: if_splits)

lemma keptFields_resolvePair:
  "map keptFields (r_sprites (resolvePair now ab i j r)) = map keptFields (r_sprites r)"
proof -
  obtain a b where ab:
    "separate
       ((r_sprites r ! i)\<lparr>velocityX := velocityX (r_sprites r ! j),
                           velocityY := velocityY (r_sprites r ! j)\<rparr>)
       ((r_sprites r ! j)\<lparr>velocityX := velocityX (r_sprites r ! i),
                           velocityY := velocityY (r_sprites r ! i)\<rparr>) = (a, b)"
    by fastforce
  from keptFields_separate [OF ab]
  have ka: "keptFields (a\<lparr>saying := ''Swapping!''\<rparr>) = keptFields (r_sprites r ! i)"
    and kb: "keptFields (b\<lparr>saying := ''Bouncing!''\<rparr>) = keptFields (r_sprites r ! j)"
    by (simp_all add: keptFields_def)
  show ?thesis
  proof (cases "i = j")
    case True
    then show ?thesis using ab kb
      by (simp add: resolvePair_def Let_def map_update_same)
  next
    case False
    have "keptFields (b\<lparr>saying := ''Bouncing!''\<rparr>)
            = keptFields ((r_sprites r)[i := a\<lparr>saying := ''Swapping!''\<rparr>] ! j)"
      using False kb by simp
    then show ?thesis using ab ka
      by (simp add: resolvePair_def Let_def map_update_same)
  qed
qed

lemma keptFields_innerLoop:
  "map keptFields (r_sprites (innerLoop now ab i j r)) = map keptFields (r_sprites r)"
  by (induction now ab i j r rule: innerLoop.induct)
     (subst innerLoop.simps, simp add: keptFields_resolvePair)

lemma keptFields_outerLoop:
  "map keptFields (r_sprites (outerLoop now ab i r)) = map keptFields (r_sprites r)"
  by (induction now ab i r rule: outerLoop.induct)
     (subst outerLoop.simps, simp add: keptFields_innerLoop)

lemma map_via_keptFields:
  "map keptFields xs = map keptFields ys \<Longrightarrow>
   map sprite_id xs = map sprite_id ys \<and> map sprite_type xs = map sprite_type ys \<and>
   map direction xs = map direction ys \<and> map sprite_size xs = map sprite_size ys \<and>
   map isAnimating xs = map isAnimating ys \<and> map thinking xs = map thinking ys \<and>
   map animation xs = map animation ys"
proof -
  assume eq: "map keptFields xs = map keptFields ys"
  have len: "length xs = length ys"
    using eq by (rule map_eq_imp_length_eq)
  have "keptFields (xs ! i) = keptFields (ys ! i)" if "i < length xs" for i
    using eq that len by (metis nth_map)
  then have "\<forall>i<length xs.
      sprite_id (xs ! i) = sprite_id (ys ! i) \<and> sprite_type (xs ! i) = sprite_type (ys ! i) \<and>
      direction (xs ! i) = direction (ys ! i) \<and> sprite_size (xs ! i) = sprite_size (ys ! i) \<and>
      isAnimating (xs ! i) = isAnimating (ys ! i) \<and> thinking (xs ! i) = thinking (ys ! i) \<and>
      animation (xs ! i) = animation (ys ! i)"
    by (simp add: keptFields_def)
  then show ?thesis
    using len by (simp add: list_eq_iff_nth_eq)
qed

text \<open>
  Claim C10. A full collision pass returns the sprites in the same order and number, and
  for each of them the id, the type, the direction, the size and the is-animating flag
  (and also the thinking text and the animation list) are what they were, whatever the
  input list, the captured queues and the time of the call. What the pass can change is
  therefore confined to the velocity, the position, the saying text, the queue state and
  the timers.
\<close>

theorem handleCollisions_frame:
  "map sprite_id (r_sprites (handleCollisions now ab r)) = map sprite_id (r_sprites r) \<and>
   map sprite_type (r_sprites (handleCollisions now ab r)) = map sprite_type (r_sprites r) \<and>
   map direction (r_sprites (handleCollisions now ab r)) = map direction (r_sprites r) \<and>
   map sprite_size (r_sprites (handleCollisions now ab r)) = map sprite_size (r_sprites r) \<and>
   map isAnimating (r_sprites (handleCollisions now ab r)) = map isAnimating (r_sprites r) \<and>
   map thinking (r_sprites (handleCollisions now ab r)) = map thinking (r_sprites r) \<and>
   map animation (r_sprites (handleCollisions now ab r)) = map animation (r_sprites r)"
  unfolding handleCollisions_def by (rule map_via_keptFields) (rule keptFields_outerLoop)

section \<open>Wall bounce\<close>

lemma clamp_bounds:
  assumes "0 \<le> w" and "js_le v (Val 0) \<or> js_ge v (Val w)"
  shows "js_le (Val 0) (Math_max (Val 0) (Math_min v (Val w))) \<and>
         js_le (Math_max (Val 0) (Math_min v (Val w))) (Val w)"
  using assms by (cases v) (auto simp: Math_max_def Math_min_def js_ge_def)












section \<open>Deleting a sprite\<close>

text \<open>What deleting does: every sprite with the id leaves the collection, the others stay
  in order, the selection is cleared if it pointed to the id, and the action-queue store
  is not touched.\<close>

lemma deleteSprite_effect:
  "ident \<notin> sprite_id ` set (sprites (deleteSprite ident a)) \<and>
   sprites (deleteSprite ident a) = filter (\<lambda>s. sprite_id s \<noteq> ident) (sprites a) \<and>
   selectedSprite (deleteSprite ident a) =
     (if selectedSprite a = Some ident then None else selectedSprite a) \<and>
   actionBlocks (deleteSprite ident a) = actionBlocks a"
  by (auto simp: deleteSprite_def)

text \<open>
  Claim C3 at the input where the code leaves it: one cat with one queued block, then
  deleted. The sprite is gone and the selection is cleared, but the queue of the deleted
  sprite is still in the store, and the next Play schedules its action.
\<close>

theorem deleteSprite_keeps_queue:
  "sprites (deleteSprite ''sprite-1'' (handleActionDrop ''sprite-1'' (turnBlock ''action-1'' 90) oneCat))
     = [] \<and>
   selectedSprite
     (deleteSprite ''sprite-1'' (handleActionDrop ''sprite-1'' (turnBlock ''action-1'' 90) oneCat))
     = None \<and>
   actionBlocks
     (deleteSprite ''sprite-1'' (handleActionDrop ''sprite-1'' (turnBlock ''action-1'' 90) oneCat))
     = [(''sprite-1'', [turnBlock ''action-1'' 90])] \<and>
   pendingTimers (togglePlay
     (deleteSprite ''sprite-1'' (handleActionDrop ''sprite-1'' (turnBlock ''action-1'' 90) oneCat)))
     = [(0, FireAction ''sprite-1'' (turnBlock ''action-1'' 90) True)]"
  by (simp add: deleteSprite_def handleActionDrop_def oneCat_def addSprite_def initialApp_def
      togglePlay_def effects_def cleanup_def queueOf_def newSprite_def sequencer_def
      scheduleActions_def)

section \<open>Rotation\<close>

lemma turn_direction:
  "block_type action = Turn \<Longrightarrow>
   direction (fst (applyAction random n action sprite)) =
     js_rem (js_add (direction sprite) (block_value action)) (Val 360)"
  by (simp add: applyAction_def)

lemma js_rem_nonneg:
  assumes "0 \<le> a" and "0 < b"
  shows "\<exists>r. js_rem (Val a) (Val b) = Val r \<and> 0 \<le> r \<and> r < b"
proof -
  have q: "0 \<le> a / b" using assms by simp
  have "a - b * of_int \<lfloor>a / b\<rfloor> = b * (a / b - of_int \<lfloor>a / b\<rfloor>)"
    using assms by (simp add: algebra_simps)
  moreover have "0 \<le> a / b - of_int \<lfloor>a / b\<rfloor>" "a / b - of_int \<lfloor>a / b\<rfloor> < 1"
    by linarith+
  ultimately have "0 \<le> a - b * of_int \<lfloor>a / b\<rfloor>" "a - b * of_int \<lfloor>a / b\<rfloor> < b"
    using assms by (simp_all add: mult_less_cancel_left2)
  then show ?thesis using assms q by (simp add: trunc_real_def)
qed

text \<open>What does hold: a turn whose sum with the old direction is not negative lands in
  \<open>[0, 360)\<close>.\<close>

lemma turn_normalised_if_sum_nonneg:
  assumes "block_type action = Turn" and "direction sprite = Val d"
    and "block_value action = Val v" and "0 \<le> d + v"
  shows "\<exists>r. direction (fst (applyAction random n action sprite)) = Val r \<and> 0 \<le> r \<and> r < 360"
  using assms js_rem_nonneg [of "d + v" 360] by (simp add: turn_direction)

text \<open>
  Claim C4 at the input where the code leaves it: a new sprite (direction 0) turned by
  -90. \<open>%\<close> keeps the sign of the dividend, so the stored direction is -90, which is
  below 0.
\<close>

theorem turn_negative_direction:
  "direction (fst (applyAction half 0 (turnBlock ''action-1'' (- 90)) (spriteAt ''sprite-1'' 100 100)))
     = Val (- 90) \<and>
   js_lt (direction (fst (applyAction half 0 (turnBlock ''action-1'' (- 90)) (spriteAt ''sprite-1'' 100 100))))
     (Val 0)"
proof -
  have c: "\<lceil>- (1 / 4 :: real)\<rceil> = 0"
    by (simp add: ceiling_eq_iff)
  have "js_rem (Val (- 90)) (Val 360) = Val (- 90)"
    using c by (simp add: trunc_real_def)
  then show ?thesis
    by (simp add: turn_direction turnBlock_def newAction_def spriteAt_def newSprite_def)
qed

section \<open>Scale floor\<close>

lemma size_step:
  assumes "block_type action = Size" and "block_value action = Val v"
    and "sprite_size sprite \<noteq> NaN"
  shows "js_le (Val (1 / 10)) (sprite_size (fst (applyAction random n action sprite)))"
  using assms by (cases "sprite_size sprite") (auto simp: applyAction_def Math_max_def)

lemma js_le_not_NaN: "js_le a b \<Longrightarrow> b \<noteq> NaN"
  by (cases a; cases b) auto

lemma decreaseSize_step:
  assumes "sprite_size sprite = Val s"
  shows "sprite_size (fst (applyAction random n decreaseSize sprite)) = Val (max (1 / 10) (s - 1 / 10))"
  using assms by (simp add: applyAction_def decreaseSize_def newAction_def Math_max_def max_def)

lemma decreaseSize_steps:
  assumes "sprite_size sprite = Val s"
  shows "sprite_size (fst (applyActions random n (replicate k decreaseSize) sprite)) =
           Val (((\<lambda>x. max (1 / 10) (x - 1 / 10)) ^^ k) s)"
  using assms
proof (induction k arbitrary: sprite n s)
  case 0
  then show ?case by simp
next
  case (Suc k)
  obtain s' n' where st: "applyAction random n decreaseSize sprite = (s', n')"
    by fastforce
  have "sprite_size s' = Val (max (1 / 10) (s - 1 / 10))"
    using decreaseSize_step [OF Suc.prems, of random n] st by simp
  from Suc.IH [OF this, of n'] show ?case
    using st funpow_swap1 [of "\<lambda>x::real. max (1 / 10) (x - 1 / 10)" k s] by simp
qed

lemma eleven_decrements:
  "sprite_size (fst (applyActions half 0 (replicate 11 decreaseSize)
      (spriteAt ''sprite-1'' 100 100))) = Val (1 / 10)"
proof -
  have "sprite_size (spriteAt ''sprite-1'' 100 100) = Val 1"
    by (simp add: spriteAt_def newSprite_def)
  from decreaseSize_steps [OF this, of half 0 11] show ?thesis
    by (simp add: eval_nat_numeral)
qed

lemma two_decrements:
  "sprite_size (fst (applyActions half 0 [decreaseSize, decreaseSize]
      (spriteAt ''sprite-1'' 100 100))) = Val (8 / 10)"
proof -
  have "sprite_size (spriteAt ''sprite-1'' 100 100) = Val 1"
    by (simp add: spriteAt_def newSprite_def)
  from decreaseSize_steps [OF this, of half 0 2] show ?thesis
    by (simp add: eval_nat_numeral)
qed

text \<open>
  Claim C7, as the code has it. For every sequence of change-scale-by actions with finite
  magnitudes, applied to a sprite whose scale is at least 0.1, the scale is at least 0.1
  afterwards: it never drops below the floor, and it can sit on it. Decreasing by 0.1
  eleven times from scale 1 yields exactly 0.1.
\<close>

theorem scale_floor:
  assumes "\<forall>action\<in>set actions. block_type action = Size \<and> (\<exists>v. block_value action = Val v)"
    and "js_le (Val (1 / 10)) (sprite_size sprite)"
  shows "js_le (Val (1 / 10)) (sprite_size (fst (applyActions random n actions sprite))) \<and>
         sprite_size (fst (applyActions half 0 (replicate 11 decreaseSize)
            (spriteAt ''sprite-1'' 100 100))) = Val (1 / 10)"
proof
  show "js_le (Val (1 / 10)) (sprite_size (fst (applyActions random n actions sprite)))"
    using assms
  proof (induction actions arbitrary: sprite n)
    case Nil
    then show ?case by simp
  next
    case (Cons a as)
    obtain s' n' where st: "applyAction random n a sprite = (s', n')"
      by fastforce
    from Cons.prems obtain v where "block_type a = Size" and "block_value a = Val v"
      by auto
    then have "js_le (Val (1 / 10)) (sprite_size s')"
      using size_step [of a v sprite random n] js_le_not_NaN [OF Cons.prems(2)] st by simp
    then show ?case
      using Cons st by simp
  qed
next
  show "sprite_size (fst (applyActions half 0 (replicate 11 decreaseSize)
            (spriteAt ''sprite-1'' 100 100))) = Val (1 / 10)"
    by (rule eleven_decrements)
qed

theorem scale_floor_witness:
  "js_le (Val (1 / 10))
     (sprite_size (fst (applyActions half 0 [decreaseSize, decreaseSize]
        (spriteAt ''sprite-1'' 100 100)))) \<and>
   sprite_size (fst (applyActions half 0 [decreaseSize, decreaseSize]
        (spriteAt ''sprite-1'' 100 100))) = Val (8 / 10)"
proof -
  have h1: "\<forall>action\<in>set [decreaseSize, decreaseSize].
              block_type action = Size \<and> (\<exists>v. block_value action = Val v)"
    by (simp add: decreaseSize_def newAction_def)
  have h2: "js_le (Val (1 / 10)) (sprite_size (spriteAt ''sprite-1'' 100 100))"
    by (simp add: spriteAt_def newSprite_def)
  from scale_floor [OF h1 h2, of half 0] two_decrements show ?thesis
    by simp
qed

text \<open>The claim as written asks for a scale above the floor at all times; after the eleven
  decrements the scale is not above 0.1.\<close>

theorem scale_reaches_floor:
  "\<not> js_lt (Val (1 / 10))
      (sprite_size (fst (applyActions half 0 (replicate 11 decreaseSize)
         (spriteAt ''sprite-1'' 100 100))))"
  by (simp add: eleven_decrements)

section \<open>Collision separation at the edge cases\<close>

lemma sqrt_256: "sqrt 256 = 16"
  by (rule real_sqrt_unique) simp_all

text \<open>
  Claim C2 at the input where the code leaves it: two sprites of scale 1 with the same
  centre. The distance is 0, the scale factor is \<open>48 / 0 = Infinity\<close>, the correction is
  \<open>0 * Infinity = NaN\<close>, and both sprites end with \<open>NaN\<close> coordinates.
\<close>

theorem coincident_centres_NaN:
  "map sprite_x (r_sprites (handleCollisions 0 []
       \<lparr>r_sprites = [spriteAt ''sprite-1'' 100 100, spriteAt ''sprite-2'' 100 100],
        r_actionBlocks = [], r_timers = []\<rparr>)) = [NaN, NaN] \<and>
   map sprite_y (r_sprites (handleCollisions 0 []
       \<lparr>r_sprites = [spriteAt ''sprite-1'' 100 100, spriteAt ''sprite-2'' 100 100],
        r_actionBlocks = [], r_timers = []\<rparr>)) = [NaN, NaN]"
  by (simp add: handleCollisions_pair spriteAt_def newSprite_def checkCollision_def
      resolvePair_def separate_def Let_def js_sub_def queueOf_def signed_inf_def)

text \<open>
  Claim C5 at the input where the code leaves it: two animating sprites at rest, 16 apart,
  the left one 8 from the left wall, on a 600 by 600 stage. The stepper keeps both inside;
  the collision pass of the same tick pushes them 16 each way, and the left one is stored
  at x = -8.
\<close>

theorem collision_pushes_out_of_stage:
  "sprite_x (r_sprites (animate (Val (16 / 1000)) (Val 600) (Val 600) 0 []
       \<lparr>r_sprites = [(spriteAt ''sprite-1'' 8 100)\<lparr>isAnimating := True\<rparr>,
                     (spriteAt ''sprite-2'' 24 100)\<lparr>isAnimating := True\<rparr>],
        r_actionBlocks = [], r_timers = []\<rparr>) ! 0) = Val (- 8) \<and>
   \<not> js_le (Val 0) (sprite_x (r_sprites (animate (Val (16 / 1000)) (Val 600) (Val 600) 0 []
       \<lparr>r_sprites = [(spriteAt ''sprite-1'' 8 100)\<lparr>isAnimating := True\<rparr>,
                     (spriteAt ''sprite-2'' 24 100)\<lparr>isAnimating := True\<rparr>],
        r_actionBlocks = [], r_timers = []\<rparr>) ! 0))"
  by (simp add: animate_def stepper_def stepSprite_def handleCollisions_pair spriteAt_def
      newSprite_def checkCollision_def resolvePair_def separate_def Let_def Math_max_def
      Math_min_def js_ge_def js_sub_def sqrt_256 queueOf_def)

section \<open>Timers of the sequencer\<close>

lemma runUntil_idle:
  "earliest (pendingTimers a) = None \<Longrightarrow> runUntil random u a = a\<lparr>clock := max (clock a) u\<rparr>"
  by (subst runUntil.simps) simp

lemma runUntil_wait:
  "earliest (pendingTimers a) = Some (due, task) \<Longrightarrow> u < due \<Longrightarrow>
   runUntil random u a = a\<lparr>clock := max (clock a) u\<rparr>"
  by (subst runUntil.simps) simp

lemma runUntil_fire:
  "earliest (pendingTimers a) = Some (due, task) \<Longrightarrow> due \<le> u \<Longrightarrow>
   runUntil random u a =
     runUntil random u
       (runTask random task
          (a\<lparr>clock := max (clock a) due,
             pendingTimers := remove1 (due, task) (pendingTimers a)\<rparr>))"
  by (subst runUntil.simps) simp

lemma turn_90:
  assumes "block_type q = Turn" and "block_value q = Val 90" and "direction s = Val d"
    and "d = 0 \<or> d = 90"
  shows "applyAction random n q s = (s\<lparr>direction := Val (d + 90), isAnimating := True\<rparr>, n)"
  using assms by (auto simp: applyAction_def trunc_real_def)

lemma togglePlay_start:
  assumes "\<not> isPlaying a"
  shows "togglePlay a =
           a\<lparr>isPlaying := True, pendingFrame := True,
             pendingTimers := pendingTimers a @ sequencer (clock a) (actionBlocks a)\<rparr>"
  using assms by (simp add: togglePlay_def effects_def cleanup_def)

text \<open>Stopping cancels the frame callback and nothing else: every pending timer stays.\<close>

lemma togglePlay_stop:
  assumes "isPlaying a"
  shows "togglePlay a = a\<lparr>isPlaying := False, pendingFrame := False\<rparr>"
  using assms by (simp add: togglePlay_def effects_def cleanup_def)

lemma frame_after_stop:
  assumes "isPlaying a"
  shows "frame deltaTime stageWidth stageHeight (togglePlay a) = togglePlay a"
  by (simp add: togglePlay_stop [OF assms] frame_def)

lemma resetAll_eq:
  "resetAll a =
     a\<lparr>sprites := [], selectedSprite := None, isPlaying := False, actionBlocks := [],
       pendingFrame := False\<rparr>"
  by (simp add: resetAll_def effects_def cleanup_def)

lemma sequencer_two:
  "sequencer t [(k, [q1, q2])] = [(t, FireAction k q1 False), (t + 1000, FireAction k q2 True)]"
  by (simp add: sequencer_def scheduleActions_def upt_rec [of 0] upt_rec [of 1] numeral_2_eq_2)

text \<open>Action \<open>i\<close> of a queue is due \<open>i\<close> seconds after the trigger, and only the last one
  carries the stop timer.\<close>

lemma scheduleActions_nth:
  "i < length actions \<Longrightarrow>
   scheduleActions now spriteId actions ! i =
     (now + i * 1000, FireAction spriteId (actions ! i) (i = length actions - 1))"
  by (simp add: scheduleActions_def)

text \<open>The run of the two timers of a queue of two turns of 90 degrees on a sprite that
  faces 0, from any state that holds just these two timers.\<close>

lemma run_two_turns:
  assumes ss: "sprites p = [s]" and d0: "direction s = Val 0"
    and tm: "pendingTimers p =
               [(t, FireAction (sprite_id s) q1 False), (t + 1000, FireAction (sprite_id s) q2 True)]"
    and q1: "block_type q1 = Turn" "block_value q1 = Val 90"
    and q2: "block_type q2 = Turn" "block_value q2 = Val 90"
    and ck: "clock p \<le> t"
  shows "t \<le> u \<Longrightarrow> u < t + 1000 \<Longrightarrow>
         sprites (runUntil random u p) = [s\<lparr>direction := Val 90, isAnimating := True\<rparr>]"
    and "t + 1000 \<le> u \<Longrightarrow> u < t + 2000 \<Longrightarrow>
         sprites (runUntil random u p) = [s\<lparr>direction := Val 180, isAnimating := True\<rparr>]"
    and "t + 2000 \<le> u \<Longrightarrow>
         sprites (runUntil random u p) =
           [s\<lparr>direction := Val 180, isAnimating := False, velocityX := Val 0,
              velocityY := Val 0\<rparr>]"
proof -
  let ?k = "sprite_id s"
  let ?s1 = "s\<lparr>direction := Val 90, isAnimating := True\<rparr>"
  let ?s2 = "s\<lparr>direction := Val 180, isAnimating := True\<rparr>"
  let ?s3 = "s\<lparr>direction := Val 180, isAnimating := False, velocityX := Val 0,
               velocityY := Val 0\<rparr>"
  let ?a1 = "p\<lparr>sprites := [?s1], clock := t,
               pendingTimers := [(t + 1000, FireAction ?k q2 True)]\<rparr>"
  let ?a2 = "p\<lparr>sprites := [?s2], clock := t + 1000,
               pendingTimers := [(t + 2000, StopSprite ?k)]\<rparr>"
  let ?a3 = "p\<lparr>sprites := [?s3], clock := t + 2000, pendingTimers := []\<rparr>"
  have e1: "earliest (pendingTimers p) = Some (t, FireAction ?k q1 False)"
    by (simp add: tm)
  have r1: "runTask random (FireAction ?k q1 False)
              (p\<lparr>clock := max (clock p) t,
                 pendingTimers := remove1 (t, FireAction ?k q1 False) (pendingTimers p)\<rparr>) = ?a1"
    using turn_90 [OF q1 d0, of random "randomCalls p"] ck
    by (intro App.equality) (simp_all add: tm ss max_def)
  have f1: "runUntil random u p = runUntil random u ?a1" if "t \<le> u" for u
    using runUntil_fire [OF e1 that, of random] by (simp only: r1)
  have e2: "earliest (pendingTimers ?a1) = Some (t + 1000, FireAction ?k q2 True)"
    by simp
  have r2: "runTask random (FireAction ?k q2 True)
              (?a1\<lparr>clock := max (clock ?a1) (t + 1000),
                   pendingTimers :=
                     remove1 (t + 1000, FireAction ?k q2 True) (pendingTimers ?a1)\<rparr>) = ?a2"
    using turn_90 [OF q2, of ?s1 90 random "randomCalls p"]
    by (intro App.equality) simp_all
  have f2: "runUntil random u ?a1 = runUntil random u ?a2" if "t + 1000 \<le> u" for u
    using runUntil_fire [OF e2 that, of random] by (simp only: r2)
  have e3: "earliest (pendingTimers ?a2) = Some (t + 2000, StopSprite ?k)"
    by simp
  have r3: "runTask random (StopSprite ?k)
              (?a2\<lparr>clock := max (clock ?a2) (t + 2000),
                   pendingTimers := remove1 (t + 2000, StopSprite ?k) (pendingTimers ?a2)\<rparr>) = ?a3"
    by (intro App.equality) simp_all
  have f3: "runUntil random u ?a2 = runUntil random u ?a3" if "t + 2000 \<le> u" for u
    using runUntil_fire [OF e3 that, of random] by (simp only: r3)
  show "sprites (runUntil random u p) = [?s1]" if "t \<le> u" "u < t + 1000"
    using that
    by (simp add: f1 runUntil_wait [where due = "t + 1000" and task = "FireAction ?k q2 True"])
  show "sprites (runUntil random u p) = [?s2]" if "t + 1000 \<le> u" "u < t + 2000"
    using that
    by (simp add: f1 f2 runUntil_wait [where due = "t + 2000" and task = "StopSprite ?k"])
  show "sprites (runUntil random u p) = [?s3]" if "t + 2000 \<le> u"
    using that by (simp add: f1 f2 f3 runUntil_idle)
qed

text \<open>The sample state: one cat facing 0 at rest, two queued turns, stopped, no timer.\<close>

lemma twoTurns_state:
  "sprites twoTurns = [newSprite ''sprite-1'' Cat (Val (1 / 2)) (Val (1 / 2))]"
  "actionBlocks twoTurns = [(''sprite-1'', [turnBlock ''action-1'' 90, turnBlock ''action-2'' 90])]"
  "\<not> isPlaying twoTurns" "pendingTimers twoTurns = []" "clock twoTurns = 0"
  "\<not> pendingFrame twoTurns"
  by (simp_all add: twoTurns_def handleActionDrop_def oneCat_def addSprite_def initialApp_def
      effects_def cleanup_def queueOf_def half_def)

lemma turnBlock_fields:
  "block_type (turnBlock ident v) = Turn" "block_value (turnBlock ident v) = Val v"
  by (simp_all add: turnBlock_def newAction_def)

lemma newSprite_fields:
  "sprite_id (newSprite ident ty r1 r2) = ident" "direction (newSprite ident ty r1 r2) = Val 0"
  by (simp_all add: newSprite_def)

lemma playing_twoTurns:
  "togglePlay twoTurns =
     twoTurns\<lparr>isPlaying := True, pendingFrame := True,
       pendingTimers := [(0, FireAction ''sprite-1'' (turnBlock ''action-1'' 90) False),
                         (1000, FireAction ''sprite-1'' (turnBlock ''action-2'' 90) True)]\<rparr>"
  using togglePlay_start [of twoTurns] sequencer_two [of 0]
  by (simp add: twoTurns_state)

text \<open>After a reset the collection is empty, and timers that fire later leave it empty.\<close>

lemma sprites_runTask_empty:
  "sprites a = [] \<Longrightarrow> sprites (runTask random task a) = []"
  by (cases task) (simp_all add: Let_def)

lemma runUntil_no_sprites:
  "sprites a = [] \<Longrightarrow> sprites (runUntil random u a) = []"
proof (induction random u a rule: runUntil.induct)
  case (1 random t a)
  show ?case
  proof (cases "earliest (pendingTimers a)")
    case None
    then show ?thesis using 1 by (simp add: runUntil_idle)
  next
    case (Some tm)
    obtain due task where tm: "tm = (due, task)" by (cases tm)
    show ?thesis
    proof (cases "due \<le> t")
      case True
      have "sprites (runTask random task
              (a\<lparr>clock := max (clock a) due,
                 pendingTimers := remove1 (due, task) (pendingTimers a)\<rparr>)) = []"
        using 1(2) by (simp add: sprites_runTask_empty)
      from 1(1) [OF Some [unfolded tm] refl True this] show ?thesis
        using runUntil_fire [OF Some [unfolded tm] True, of random] by simp
    next
      case False
      then show ?thesis
        using 1(2) runUntil_wait [OF Some [unfolded tm], of t random] by simp
    qed
  qed
qed




section \<open>Stop and reset\<close>

text \<open>
  Claim C1 at the input where the code leaves it: the cat with its two queued turns, Play
  at time 0 and Stop at once. After the stop the application is not playing and the frame
  callback is cancelled, but both action timers are still pending; the sprite faces 0 at
  stop time and 180 one second later.
\<close>

theorem timers_fire_after_stop:
  "\<not> isPlaying (togglePlay (togglePlay twoTurns)) \<and>
   \<not> pendingFrame (togglePlay (togglePlay twoTurns)) \<and>
   pendingTimers (togglePlay (togglePlay twoTurns)) =
     [(0, FireAction ''sprite-1'' (turnBlock ''action-1'' 90) False),
      (1000, FireAction ''sprite-1'' (turnBlock ''action-2'' 90) True)] \<and>
   map direction (sprites (togglePlay (togglePlay twoTurns))) = [Val 0] \<and>
   map direction (sprites (runUntil half 1000 (togglePlay (togglePlay twoTurns)))) = [Val 180]"
proof -
  let ?st = "togglePlay (togglePlay twoTurns)"
  have pl: "isPlaying (togglePlay twoTurns)" by (simp add: playing_twoTurns)
  have st: "?st = (togglePlay twoTurns)\<lparr>isPlaying := False, pendingFrame := False\<rparr>"
    by (rule togglePlay_stop [OF pl])
  have tm: "pendingTimers ?st =
      [(0, FireAction (sprite_id (newSprite ''sprite-1'' Cat (Val (1 / 2)) (Val (1 / 2))))
             (turnBlock ''action-1'' 90) False),
       (0 + 1000, FireAction (sprite_id (newSprite ''sprite-1'' Cat (Val (1 / 2)) (Val (1 / 2))))
             (turnBlock ''action-2'' 90) True)]"
    by (subst st) (simp add: playing_twoTurns newSprite_fields)
  have ss: "sprites ?st = [newSprite ''sprite-1'' Cat (Val (1 / 2)) (Val (1 / 2))]"
    by (subst st) (simp add: playing_twoTurns twoTurns_state)
  have ck: "clock ?st \<le> 0"
    by (subst st) (simp add: playing_twoTurns twoTurns_state)
  note run = run_two_turns [OF ss newSprite_fields(2) tm turnBlock_fields turnBlock_fields ck]
  have 1: "\<not> isPlaying ?st" "\<not> pendingFrame ?st" by (simp_all add: st)
  have 2: "pendingTimers ?st =
             [(0, FireAction ''sprite-1'' (turnBlock ''action-1'' 90) False),
              (1000, FireAction ''sprite-1'' (turnBlock ''action-2'' 90) True)]"
    by (subst st) (simp add: playing_twoTurns)
  have 3: "map direction (sprites ?st) = [Val 0]"
    by (simp add: ss newSprite_fields)
  have 4: "map direction (sprites (runUntil half 1000 ?st)) = [Val 180]"
    using run(2) [of 1000 half] by simp
  show ?thesis
    using 1 2 3 4 by (intro conjI)
qed

section \<open>Collision swap\<close>

lemma scaled_distance:
  fixes dx dy m :: real
  assumes d: "d = sqrt (dx * dx + dy * dy)" and pos: "0 < d" and m: "0 \<le> m"
    and k: "k = (m - d) / d"
  shows "sqrt ((dx + dx * k) * (dx + dx * k) + (dy + dy * k) * (dy + dy * k)) = m"
proof -
  have k1: "1 + k = m / d" using pos k by (simp add: field_simps)
  have dd: "dx * dx + dy * dy = d * d"
    using d by (simp add: power2_eq_square [symmetric])
  have "(dx + dx * k) * (dx + dx * k) + (dy + dy * k) * (dy + dy * k)
          = (dx * dx + dy * dy) * ((1 + k) * (1 + k))"
    by (simp add: algebra_simps)
  also have "\<dots> = d * d * ((m / d) * (m / d))" by (simp add: k1 dd)
  also have "\<dots> = m * m" using pos by simp
  finally have "sqrt ((dx + dx * k) * (dx + dx * k) + (dy + dy * k) * (dy + dy * k)) = sqrt (m * m)"
    by simp
  then show ?thesis using m by simp
qed

lemma separate_reaches_minDistance:
  assumes xi: "sprite_x si = Val xi" and yi: "sprite_y si = Val yi"
    and xj: "sprite_x sj = Val xj" and yj: "sprite_y sj = Val yj"
    and zi: "sprite_size si = Val zi" and zj: "sprite_size sj = Val zj"
    and ne: "xi \<noteq> xj \<or> yi \<noteq> yj"
    and sep: "separate si sj = (a, b)"
  shows "js_ge (centreDistance a b) (minDistance si sj)"
proof -
  define dx where "dx = xj - xi"
  define dy where "dy = yj - yi"
  define d where "d = sqrt (dx * dx + dy * dy)"
  define m where "m = (48 * zi + 48 * zj) / 2"
  define k where "k = (m - d) / d"
  have nz: "dx \<noteq> 0 \<or> dy \<noteq> 0" using ne by (auto simp: dx_def dy_def)
  then have "0 < dx * dx + dy * dy"
    by (metis not_sum_squares_lt_zero sum_squares_eq_zero_iff linorder_neqE_linordered_idom)
  then have pos: "0 < d" by (simp add: d_def)
  have nn: "\<not> dx * dx + dy * dy < 0" using \<open>0 < dx * dx + dy * dy\<close> by simp
  show ?thesis
  proof (cases "d < m")
    case True
    have a: "a = si\<lparr>sprite_x := Val (xi - dx * k / 2), sprite_y := Val (yi - dy * k / 2)\<rparr>"
      and b: "b = sj\<lparr>sprite_x := Val (xj + dx * k / 2), sprite_y := Val (yj + dy * k / 2)\<rparr>"
      using sep True pos nn
      by (simp_all add: separate_def Let_def js_sub_def assms(1-6)
          dx_def [symmetric] dy_def [symmetric] d_def [symmetric] m_def [symmetric] k_def [symmetric])
    have e1: "xj + dx * k / 2 - (xi - dx * k / 2) = dx + dx * k"
      by (simp add: dx_def algebra_simps)
    have e2: "yj + dy * k / 2 - (yi - dy * k / 2) = dy + dy * k"
      by (simp add: dy_def algebra_simps)
    have m0: "0 \<le> m" using True pos by simp
    have s: "sqrt ((dx + dx * k) * (dx + dx * k) + (dy + dy * k) * (dy + dy * k)) = m"
      using scaled_distance [OF d_def pos m0 k_def] .
    have "centreDistance a b = Val m"
      using s by (simp add: centreDistance_def a b js_sub_def Let_def e1 [simplified] e2 [simplified] not_less add.commute)
    then show ?thesis
      by (simp add: minDistance_def zi zj m_def js_ge_def)
  next
    case False
    have "a = si" "b = sj"
      using sep False pos nn
      by (simp_all add: separate_def Let_def js_sub_def assms(1-6)
          dx_def [symmetric] dy_def [symmetric] d_def [symmetric] m_def [symmetric])
    then have "centreDistance a b = Val d"
      using nn by (simp add: centreDistance_def Let_def js_sub_def assms(1-6)
          dx_def [symmetric] dy_def [symmetric] d_def [symmetric])
    then show ?thesis using False
      by (simp add: minDistance_def zi zj m_def js_ge_def)
  qed
qed


lemma queueOf_update:
  "queueOf (AList.update k v al) k' = (if k' = k then v else queueOf al k')"
  by (simp add: queueOf_def update_conv')

lemma separate_velocity:
  "separate si sj = (a, b) \<Longrightarrow>
   velocityX a = velocityX si \<and> velocityY a = velocityY si \<and>
   velocityX b = velocityX sj \<and> velocityY b = velocityY sj \<and>
   sprite_size a = sprite_size si \<and> sprite_size b = sprite_size sj \<and>
   sprite_id a = sprite_id si \<and> sprite_id b = sprite_id sj"
  by (auto simp: separate_def Let_def split: if_splits)

text \<open>
  What the pass does to a pair that overlaps with distinct centres: the velocities are
  exchanged, the queues are exchanged (the ids being distinct and the captured queues
  being the current ones), and the centres end at least the minimum separation apart.
\<close>

lemma collision_swap_distinct_centres:
  assumes r: "r_sprites r = [A, B]" and cur: "r_actionBlocks r = ab"
    and ov: "checkCollision A B" and ids: "sprite_id A \<noteq> sprite_id B"
    and xa: "sprite_x A = Val xa" and ya: "sprite_y A = Val ya"
    and xb: "sprite_x B = Val xb" and yb: "sprite_y B = Val yb"
    and za: "sprite_size A = Val za" and zb: "sprite_size B = Val zb"
    and ne: "xa \<noteq> xb \<or> ya \<noteq> yb"
  shows "map velocityX (r_sprites (handleCollisions now ab r)) = [velocityX B, velocityX A] \<and>
         map velocityY (r_sprites (handleCollisions now ab r)) = [velocityY B, velocityY A] \<and>
         queueOf (r_actionBlocks (handleCollisions now ab r)) (sprite_id A) = queueOf ab (sprite_id B) \<and>
         queueOf (r_actionBlocks (handleCollisions now ab r)) (sprite_id B) = queueOf ab (sprite_id A) \<and>
         js_ge (centreDistance (r_sprites (handleCollisions now ab r) ! 0)
                               (r_sprites (handleCollisions now ab r) ! 1))
               (minDistance (r_sprites (handleCollisions now ab r) ! 0)
                            (r_sprites (handleCollisions now ab r) ! 1))"
proof -
  let ?A1 = "A\<lparr>velocityX := velocityX B, velocityY := velocityY B\<rparr>"
  let ?B1 = "B\<lparr>velocityX := velocityX A, velocityY := velocityY A\<rparr>"
  obtain a b where sep: "separate ?A1 ?B1 = (a, b)" by fastforce
  have h: "handleCollisions now ab r = resolvePair now ab 0 1 r"
    using handleCollisions_pair [OF r] ov by simp
  have sp: "r_sprites (resolvePair now ab 0 1 r) =
              [a\<lparr>saying := ''Swapping!''\<rparr>, b\<lparr>saying := ''Bouncing!''\<rparr>]"
    using sep by (simp add: resolvePair_def r Let_def)
  have qs: "r_actionBlocks (resolvePair now ab 0 1 r) =
              AList.update (sprite_id b) (queueOf ab (sprite_id a))
                (AList.update (sprite_id a) (queueOf ab (sprite_id b)) ab)"
    using sep by (simp add: resolvePair_def r cur Let_def)
  note sv = separate_velocity [OF sep]
  have d: "js_ge (centreDistance a b) (minDistance ?A1 ?B1)"
    by (rule separate_reaches_minDistance [OF _ _ _ _ _ _ ne sep]) (simp_all add: xa ya xb yb za zb)
  have md: "minDistance (a\<lparr>saying := ''Swapping!''\<rparr>) (b\<lparr>saying := ''Bouncing!''\<rparr>)
              = minDistance ?A1 ?B1"
    using sv by (simp add: minDistance_def)
  have cd: "centreDistance (a\<lparr>saying := ''Swapping!''\<rparr>) (b\<lparr>saying := ''Bouncing!''\<rparr>)
              = centreDistance a b"
    by (simp add: centreDistance_def)
  show ?thesis
    unfolding h sp qs using sv ids d by (simp add: queueOf_update md cd)
qed

text \<open>
  Claim C6 at the input where the code leaves it: A and B of the claim placed on the same
  point. Velocities and queues are exchanged as the claim says, but the separation divides
  by the zero distance, the coordinates become \<open>NaN\<close>, and the distance of the centres is
  not at least the minimum separation.
\<close>

theorem coincident_pair_not_separated:
  "map velocityX (r_sprites (handleCollisions 0 queuesAB
       \<lparr>r_sprites = [spriteA 100 100, spriteB 100 100], r_actionBlocks = queuesAB,
        r_timers = []\<rparr>)) = [Val (- 50), Val 50] \<and>
   r_actionBlocks (handleCollisions 0 queuesAB
       \<lparr>r_sprites = [spriteA 100 100, spriteB 100 100], r_actionBlocks = queuesAB,
        r_timers = []\<rparr>) = [(''sprite-1'', [b1]), (''sprite-2'', [a1])] \<and>
   map sprite_x (r_sprites (handleCollisions 0 queuesAB
       \<lparr>r_sprites = [spriteA 100 100, spriteB 100 100], r_actionBlocks = queuesAB,
        r_timers = []\<rparr>)) = [NaN, NaN] \<and>
   \<not> js_ge
       (centreDistance
          (r_sprites (handleCollisions 0 queuesAB
             \<lparr>r_sprites = [spriteA 100 100, spriteB 100 100], r_actionBlocks = queuesAB,
              r_timers = []\<rparr>) ! 0)
          (r_sprites (handleCollisions 0 queuesAB
             \<lparr>r_sprites = [spriteA 100 100, spriteB 100 100], r_actionBlocks = queuesAB,
              r_timers = []\<rparr>) ! 1))
       (minDistance
          (r_sprites (handleCollisions 0 queuesAB
             \<lparr>r_sprites = [spriteA 100 100, spriteB 100 100], r_actionBlocks = queuesAB,
              r_timers = []\<rparr>) ! 0)
          (r_sprites (handleCollisions 0 queuesAB
             \<lparr>r_sprites = [spriteA 100 100, spriteB 100 100], r_actionBlocks = queuesAB,
              r_timers = []\<rparr>) ! 1))"
proof -
  have h: "handleCollisions 0 queuesAB
             \<lparr>r_sprites = [spriteA 100 100, spriteB 100 100], r_actionBlocks = queuesAB,
              r_timers = []\<rparr> =
           \<lparr>r_sprites =
              [(spriteA 100 100)\<lparr>velocityX := Val (- 50), velocityY := Val 0, sprite_x := NaN,
                                  sprite_y := NaN, saying := ''Swapping!''\<rparr>,
               (spriteB 100 100)\<lparr>velocityX := Val 50, velocityY := Val 0, sprite_x := NaN,
                                  sprite_y := NaN, saying := ''Bouncing!''\<rparr>],
            r_actionBlocks = [(''sprite-1'', [b1]), (''sprite-2'', [a1])],
            r_timers = [(1000, ClearSaying ''sprite-1'' ''sprite-2'')]\<rparr>"
    by (simp add: handleCollisions_pair spriteA_def spriteB_def spriteAt_def newSprite_def
        checkCollision_def resolvePair_def separate_def Let_def js_sub_def queueOf_def
        signed_inf_def queuesAB_def)
  show ?thesis
    unfolding h
    by (simp add: centreDistance_def minDistance_def js_sub_def js_ge_def spriteA_def
        spriteB_def spriteAt_def newSprite_def)
qed

text \<open>A message-clear timer of the collision pass survives the stop as well: the two
  cats have bumped, Stop is pressed, and one second after the bump the messages are
  cleared.\<close>

lemma bumped_state:
  "bumped =
     \<lparr>sprites = [(spriteAt ''sprite-1'' 84 100)\<lparr>saying := ''Swapping!''\<rparr>,
                 (spriteAt ''sprite-2'' 132 100)\<lparr>saying := ''Bouncing!''\<rparr>],
      selectedSprite = None, isPlaying = True,
      actionBlocks = [(''sprite-1'', []), (''sprite-2'', [])],
      pendingFrame = True,
      pendingTimers = [(1016, ClearSaying ''sprite-1'' ''sprite-2'')],
      clock = 16, randomCalls = 0\<rparr>"
  by (simp add: bumped_def twoCats_def initialApp_def togglePlay_def effects_def cleanup_def
      runUntil_idle
      sequencer_def scheduleActions_def frame_def animate_def stepper_def stepSprite_def
      handleCollisions_pair spriteAt_def newSprite_def checkCollision_def resolvePair_def
      separate_def Let_def js_sub_def sqrt_256 queueOf_def)

lemma clear_timer_fires_after_stop:
  "\<not> isPlaying (togglePlay bumped) \<and> \<not> pendingFrame (togglePlay bumped) \<and>
   pendingTimers (togglePlay bumped) = [(1016, ClearSaying ''sprite-1'' ''sprite-2'')] \<and>
   map saying (sprites (togglePlay bumped)) = [''Swapping!'', ''Bouncing!''] \<and>
   map saying (sprites (runUntil half 1016 (togglePlay bumped))) = [[], []]"
proof -
  let ?st = "togglePlay bumped"
  let ?c = "ClearSaying ''sprite-1'' ''sprite-2''"
  have pl: "isPlaying bumped" by (simp add: bumped_state)
  have st: "?st = bumped\<lparr>isPlaying := False, pendingFrame := False\<rparr>"
    by (rule togglePlay_stop [OF pl])
  have 1: "\<not> isPlaying ?st" "\<not> pendingFrame ?st" by (simp_all add: st)
  have 2: "pendingTimers ?st = [(1016, ?c)]"
    by (subst st) (simp add: bumped_state)
  have 3: "map saying (sprites ?st) = [''Swapping!'', ''Bouncing!'']"
    by (subst st) (simp add: bumped_state)
  have e: "earliest (pendingTimers ?st) = Some (1016, ?c)"
    by (simp add: 2)
  let ?n = "runTask half ?c
              (?st\<lparr>clock := max (clock ?st) 1016,
                   pendingTimers := remove1 (1016, ?c) (pendingTimers ?st)\<rparr>)"
  have f: "runUntil half 1016 ?st = runUntil half 1016 ?n"
    by (rule runUntil_fire [OF e order_refl])
  have i: "earliest (pendingTimers ?n) = None"
    by (simp add: 2)
  have "sprites (runUntil half 1016 ?st) = sprites ?n"
    by (simp only: f runUntil_idle [OF i]) simp
  also have "map saying \<dots> = [[], []]"
    by (subst st) (simp add: bumped_state spriteAt_def newSprite_def)
  finally have 4: "map saying (sprites (runUntil half 1016 ?st)) = [[], []]" .
  show ?thesis
    using 1 2 3 4 by (intro conjI)
qed

end
